theory Spec2Isabelle
  imports Complex_Main "HOL-Library.Sublist"
begin

section \<open>Values and built-ins of the host language\<close>

text \<open>
  An assessment's \<open>data\<close> field is a dictionary of decoded JSON values, kept as the
  list of its items in insertion order.  Text is
  modelled by \<open>string\<close>, the sequence of bytes of its UTF-8 encoding; white space, digits
  and letter case are the ASCII ones.  Floating-point division and \<open>round\<close> are modelled
  by exact rational arithmetic with rounding of ties to the even neighbour (what
  \<open>round\<close> does on a float); the two agree as long as the sums involved stay far below
  \<open>2 ^ 52\<close>.
\<close>

datatype json =
    JNull
  | JBool bool
  | JInt int
  | JFloat rat
  | JNaN
  | JInfinity
  | JStr string
  | JArr "json list"
  | JObj "(string \<times> json) list"

datatype py_error = TypeError | ValueError | OverflowError | KeyError | IndexError | AttributeError

type_synonym pydict = "(string \<times> json) list"

definition dict_get :: "pydict \<Rightarrow> string \<Rightarrow> json" where
  \<comment> \<open>\<open>d.get(k)\<close>: \<open>None\<close> for a missing key\<close>
  "dict_get d k = (case map_of d k of None \<Rightarrow> JNull | Some v \<Rightarrow> v)"

definition is_space :: "char \<Rightarrow> bool" where
  "is_space c \<longleftrightarrow> c \<in> set [CHR '' '', CHR 0x09, CHR 0x0A, CHR 0x0B, CHR 0x0C, CHR 0x0D,
     CHR 0x1C, CHR 0x1D, CHR 0x1E, CHR 0x1F]"

definition strip :: "string \<Rightarrow> string" where
  "strip s = rev (dropWhile is_space (rev (dropWhile is_space s)))"

definition is_digit :: "char \<Rightarrow> bool" where
  "is_digit c \<longleftrightarrow> c \<in> set ''0123456789''"

definition digit_val :: "char \<Rightarrow> int" where
  "digit_val c =
     (case map_of (zip ''0123456789'' [0, 1, 2, 3, 4, 5, 6, 7, 8, 9]) c of
        None \<Rightarrow> 0
      | Some v \<Rightarrow> v)"

fun parse_digits :: "string \<Rightarrow> int \<Rightarrow> int option" where
  \<comment> \<open>decimal digits, single underscores allowed between two digits\<close>
  "parse_digits [] acc = Some acc"
| "parse_digits (c # cs) acc =
     (if is_digit c then parse_digits cs (10 * acc + digit_val c)
      else if c = CHR ''_'' \<and> cs \<noteq> [] \<and> is_digit (hd cs) then parse_digits cs acc
      else None)"

definition parse_unsigned :: "string \<Rightarrow> int option" where
  "parse_unsigned s = (if s \<noteq> [] \<and> is_digit (hd s) then parse_digits s 0 else None)"

definition int_of_str :: "string \<Rightarrow> py_error + int" where
  \<comment> \<open>\<open>int(s)\<close> for a string: optional sign, decimal digits, surrounding white space\<close>
  "int_of_str s =
     (let t = strip s;
          r = (if t \<noteq> [] \<and> hd t = CHR ''-'' then map_option uminus (parse_unsigned (tl t))
               else if t \<noteq> [] \<and> hd t = CHR ''+'' then parse_unsigned (tl t)
               else parse_unsigned t)
      in case r of None \<Rightarrow> Inl ValueError | Some i \<Rightarrow> Inr i)"

fun py_int :: "json \<Rightarrow> py_error + int" where
  \<comment> \<open>the built-in \<open>int(v)\<close>\<close>
  "py_int JNull = Inl TypeError"
| "py_int (JBool b) = Inr (if b then 1 else 0)"
| "py_int (JInt i) = Inr i"
| "py_int (JFloat r) = Inr (if 0 \<le> r then \<lfloor>r\<rfloor> else \<lceil>r\<rceil>)"
| "py_int JNaN = Inl ValueError"
| "py_int JInfinity = Inl OverflowError"
| "py_int (JStr s) = int_of_str s"
| "py_int (JArr xs) = Inl TypeError"
| "py_int (JObj kvs) = Inl TypeError"

definition py_round :: "rat \<Rightarrow> int" where
  \<comment> \<open>\<open>round(x)\<close>: nearest integer, a tie goes to the even one\<close>
  "py_round x =
     (let f = \<lfloor>x\<rfloor>; d = x - of_int f
      in if d < 1 / 2 then f else if 1 / 2 < d then f + 1
         else if even f then f else f + 1)"

section \<open>Records of the store\<close>

text \<open>
  The stored collections are taken as the create operations write them: every assessment
  and workout has its typed fields, and a timestamp is reduced to its calendar date (the
  proleptic Gregorian ordinal, \<open>date.toordinal()\<close>) and the second of the day.
\<close>

record datetime =
  ordinal :: int          \<comment> \<open>\<open>timestamp.date().toordinal()\<close>\<close>
  second_of_day :: nat

definition weekday :: "datetime \<Rightarrow> nat" where
  \<comment> \<open>\<open>timestamp.weekday()\<close>, Monday is 0\<close>
  "weekday t = nat ((ordinal t + 6) mod 7)"

record Assessment =
  a_id :: string
  a_patientId :: string
  a_timestamp :: datetime
  a_data :: pydict

record Workout =
  w_id :: string
  w_patientId :: string
  activityName :: string
  category :: string
  duration :: int
  frequency :: string
  instructions :: "string option"
  w_timestamp :: datetime

section \<open>Score engine\<close>

definition score_keys :: "string list" where
  "score_keys = [''fineMotor_grip'', ''grossMotor_balance'', ''cognitive_approach'',
     ''emotional_quality'', ''communication_clarity'', ''communication_grammar'']"

definition collect_step :: "pydict \<Rightarrow> string \<Rightarrow> int list \<Rightarrow> int list" where
  \<comment> \<open>one pass of the loop body: a failing \<open>int(v)\<close> is caught and the key is skipped\<close>
  "collect_step d k values =
     (let v = dict_get d k
      in if v \<noteq> JNull then (case py_int v of Inr i \<Rightarrow> values @ [i] | Inl e \<Rightarrow> values)
         else values)"

definition percentage :: "int list \<Rightarrow> int" where
  \<comment> \<open>\<open>round(sum(values) / (len(values) * 5) * 100)\<close>\<close>
  "percentage values =
     py_round (of_int (sum_list values) / of_int (int (length values) * 5) * 100)"

definition compute_assessment_score :: "Assessment \<Rightarrow> int" where
  "compute_assessment_score a =
     (let values = fold (collect_step (a_data a)) score_keys []
      in if values = [] then 0 else percentage values)"


section \<open>Helpers for errors, dictionaries and text\<close>

fun map_result :: "('a \<Rightarrow> py_error + 'b) \<Rightarrow> 'a list \<Rightarrow> py_error + 'b list" where
  \<comment> \<open>a list comprehension whose element expression may raise: the first error wins\<close>
  "map_result f [] = Inr []"
| "map_result f (x # xs) =
     (case f x of
        Inl e \<Rightarrow> Inl e
      | Inr y \<Rightarrow> (case map_result f xs of Inl e \<Rightarrow> Inl e | Inr ys \<Rightarrow> Inr (y # ys)))"

definition dict_index :: "('k \<rightharpoonup> 'v) \<Rightarrow> 'k \<Rightarrow> py_error + 'v" where
  \<comment> \<open>\<open>d[k]\<close>\<close>
  "dict_index d k = (case d k of None \<Rightarrow> Inl KeyError | Some v \<Rightarrow> Inr v)"

definition lower_char :: "char \<Rightarrow> char" where
  "lower_char c =
     (case map_of (zip ''ABCDEFGHIJKLMNOPQRSTUVWXYZ'' ''abcdefghijklmnopqrstuvwxyz'') c of
        None \<Rightarrow> c
      | Some l \<Rightarrow> l)"


definition lower :: "string \<Rightarrow> string" where
  "lower s = map lower_char s"







fun split_on :: "char \<Rightarrow> string \<Rightarrow> string list" where
  \<comment> \<open>\<open>s.split(c)\<close>\<close>
  "split_on c [] = [[]]"
| "split_on c (x # xs) =
     (if x = c then [] # split_on c xs
      else (case split_on c xs of [] \<Rightarrow> [[x]] | l # ls \<Rightarrow> (x # l) # ls))"


function str_replace :: "string \<Rightarrow> string \<Rightarrow> string \<Rightarrow> string" where
  \<comment> \<open>\<open>s.replace(old, new)\<close> for a non-empty \<open>old\<close>: left to right, without overlap\<close>
  "str_replace old new s =
     (if s = [] then []
      else if old \<noteq> [] \<and> prefix old s then new @ str_replace old new (drop (length old) s)
      else hd s # str_replace old new (tl s))"
  by pat_completeness auto
termination
  by (relation "measure (\<lambda>(old, new, s). length s)") auto

declare str_replace.simps [simp del]

definition filter_patient :: "string option \<Rightarrow> ('a \<Rightarrow> string) \<Rightarrow> 'a list \<Rightarrow> 'a list" where
  \<comment> \<open>\<open>if patientId: xs = [x for x in xs if str(x.patientId) == str(patientId)]\<close>\<close>
  "filter_patient pid get xs =
     (case pid of
        None \<Rightarrow> xs
      | Some p \<Rightarrow> if p = [] then xs else filter (\<lambda>x. get x = p) xs)"

section \<open>Aggregator\<close>

definition mean_round :: "int list \<Rightarrow> int" where
  \<comment> \<open>\<open>round(sum(xs) / len(xs))\<close>\<close>
  "mean_round xs = py_round (of_int (sum_list xs) / of_int (int (length xs)))"

record dashboard =
  activePatients :: nat
  todaysAssessments :: nat
  averageProgress :: int
  homeWorkouts :: nat

definition compute_dashboard_stats :: "int \<Rightarrow> Assessment list \<Rightarrow> Workout list \<Rightarrow> dashboard" where
  \<comment> \<open>the first argument is the current UTC date\<close>
  "compute_dashboard_stats today assessments workouts =
     (let patients = set (map a_patientId assessments) \<union> set (map w_patientId workouts);
          todays_assessments = filter (\<lambda>a. ordinal (a_timestamp a) = today) assessments;
          avg_progress_list =
            map compute_assessment_score
              (filter (\<lambda>a. compute_assessment_score a > 0) assessments);
          avg_progress = (if avg_progress_list \<noteq> [] then mean_round avg_progress_list else 0)
      in \<lparr>activePatients = card patients,
          todaysAssessments = length todays_assessments,
          averageProgress = avg_progress,
          homeWorkouts = length workouts\<rparr>)"

record chart =
  labels :: "string list"
  data :: "int list"

definition week_labels :: "string list" where
  "week_labels = [''Mon'', ''Tue'', ''Wed'', ''Thu'', ''Fri'', ''Sat'', ''Sun'']"

definition week_step :: "Workout \<Rightarrow> (nat \<rightharpoonup> int) \<Rightarrow> (nat \<rightharpoonup> int)" where
  \<comment> \<open>\<open>counts[wd] = counts.get(wd, 0) + 1\<close>\<close>
  "week_step w counts =
     (let wd = weekday (w_timestamp w)
      in counts(wd \<mapsto> (case counts wd of None \<Rightarrow> 0 | Some n \<Rightarrow> n) + 1))"

definition compute_weekly_activity :: "Workout list \<Rightarrow> py_error + chart" where
  "compute_weekly_activity workouts =
     (let counts = fold week_step workouts (map_of (map (\<lambda>i. (i, 0)) [0..<7]))
      in case map_result (dict_index counts) [0..<7] of
           Inl e \<Rightarrow> Inl e
         | Inr d \<Rightarrow> Inr \<lparr>labels = week_labels, data = d\<rparr>)"

definition categories :: "string list" where
  "categories = [''fine-motor'', ''gross-motor'', ''cognitive'', ''sensory'',
     ''communication'', ''social'', ''adl'', ''attention'']"

definition distribution_labels :: "string list" where
  "distribution_labels = [''Fine Motor'', ''Gross Motor'', ''Cognitive'', ''Sensory'',
     ''Communication'', ''Social'', ''ADL'', ''Attention'']"

definition distribution_step :: "Workout \<Rightarrow> (string \<rightharpoonup> int) \<Rightarrow> (string \<rightharpoonup> int)" where
  \<comment> \<open>\<open>c = (w.category or '').lower(); if c in counts: counts[c] += 1\<close>\<close>
  "distribution_step w counts =
     (let c = lower (category w)
      in case counts c of None \<Rightarrow> counts | Some n \<Rightarrow> counts(c \<mapsto> n + 1))"

definition compute_activity_distribution :: "Workout list \<Rightarrow> py_error + chart" where
  "compute_activity_distribution workouts =
     (let counts = fold distribution_step workouts (map_of (map (\<lambda>c. (c, 0)) categories))
      in case map_result (dict_index counts)
             [''fine-motor'', ''gross-motor'', ''cognitive'', ''sensory'',
              ''communication'', ''social'', ''adl'', ''attention''] of
           Inl e \<Rightarrow> Inl e
         | Inr d \<Rightarrow> Inr \<lparr>labels = distribution_labels, data = d\<rparr>)"






definition radar_categories :: "(string \<times> string list) list" where
  "radar_categories =
     [(''Fine Motor'', [''fineMotor_grip'', ''fineMotor_beads'']),
      (''Gross Motor'', [''grossMotor_balance'', ''grossMotor_time'', ''grossMotor_falls'']),
      (''Cognitive'', [''cognitive_approach'', ''cognitive_memory'']),
      (''Sensory'', [''sensory_behavior'']),
      (''Communication'', [''communication_clarity'', ''communication_grammar'']),
      (''Social'', [''social_interaction'']),
      (''ADL'', [''adl_independence'']),
      (''Attention'', [''attention_span''])]"

definition pooled_values :: "string list \<Rightarrow> Assessment list \<Rightarrow> int list" where
  \<comment> \<open>the two nested loops that fill \<open>vals\<close>\<close>
  "pooled_values keys assessments =
     fold (\<lambda>a vals. fold (collect_step (a_data a)) keys vals) assessments []"

definition chart_dashboard_skills :: "string option \<Rightarrow> Assessment list \<Rightarrow> chart" where
  "chart_dashboard_skills patientId raw =
     (let assessments = filter_patient patientId a_patientId raw
      in \<lparr>labels = map fst radar_categories,
          data = map (\<lambda>(label, keys).
                   let vals = pooled_values keys assessments
                   in if vals \<noteq> [] then percentage vals else 0) radar_categories\<rparr>)"

definition performance_categories :: "(string \<times> string list) list" where
  "performance_categories =
     [(''Fine Motor Skills'', [''fineMotor_grip'']),
      (''Gross Motor Skills'', [''grossMotor_balance'']),
      (''Cognitive Abilities'', [''cognitive_approach'']),
      (''Communication Skills'', [''communication_clarity'', ''communication_grammar'']),
      (''Social Skills'', []),
      (''ADL Skills'', [''adl_independence'']),
      (''Sensory Processing'', [''sensory_behavior'']),
      (''Attention & Concentration'', [])]"

record skill_row =
  skill :: string
  current :: int
  previous :: int
  goal :: int
  status :: string

definition skill_vals :: "pydict \<Rightarrow> string list \<Rightarrow> py_error + int list" where
  \<comment> \<open>\<open>[int(a.data.get(k)) for k in keys if a.data.get(k) is not None]\<close>, no handler\<close>
  "skill_vals d keys =
     map_result (\<lambda>k. py_int (dict_get d k)) (filter (\<lambda>k. dict_get d k \<noteq> JNull) keys)"

fun skill_scores :: "string list \<Rightarrow> Assessment list \<Rightarrow> py_error + int list" where
  "skill_scores keys [] = Inr []"
| "skill_scores keys (a # as) =
     (case skill_vals (a_data a) keys of
        Inl e \<Rightarrow> Inl e
      | Inr vals \<Rightarrow>
          (case skill_scores keys as of
             Inl e \<Rightarrow> Inl e
           | Inr rest \<Rightarrow> Inr ((if vals \<noteq> [] then [percentage vals] else []) @ rest)))"

definition skill_result :: "string \<Rightarrow> int list \<Rightarrow> skill_row" where
  "skill_result label scores =
     (let prev_scores = (if length scores > 1 then butlast scores else []);
          cur = (if scores \<noteq> [] then mean_round scores else 0);
          prev = (if prev_scores \<noteq> [] then mean_round prev_scores else max 0 (cur - 5));
          st = (if cur \<ge> prev then ''On Track''
                else if cur > 0 then ''Improving'' else ''Needs Attention'');
          gl = (if cur \<noteq> 0 then min 100 (max 80 (cur + 5)) else 80)
      in \<lparr>skill = label, current = cur, previous = prev, goal = gl, status = st\<rparr>)"

definition reports_skill_performance ::
  "string option \<Rightarrow> Assessment list \<Rightarrow> py_error + skill_row list" where
  "reports_skill_performance patientId raw =
     (let assessments = filter_patient patientId a_patientId raw
      in map_result
           (\<lambda>(label, keys).
              case skill_scores keys assessments of
                Inl e \<Rightarrow> Inl e
              | Inr scores \<Rightarrow> Inr (skill_result label scores))
           performance_categories)"

section \<open>Record store\<close>

record Patient =
  p_id :: string                \<comment> \<open>empty when the stored item has no usable \<open>id\<close>\<close>
  p_name :: "string option"     \<comment> \<open>\<open>None\<close> when the item has no \<open>name\<close> key\<close>
  p_age :: "int option"

record store =
  patients :: "Patient list"
  assessments :: "Assessment list"
  workouts :: "Workout list"

record clear_response =
  cleared_status :: string
  cleared_type :: "string option"

definition admin_clear :: "string option \<Rightarrow> store \<Rightarrow> store \<times> clear_response" where
  "admin_clear ty st =
     (let st1 = (if ty \<in> {Some ''assessments'', Some ''all''} then st\<lparr>assessments := []\<rparr> else st);
          st2 = (if ty \<in> {Some ''workouts'', Some ''all''} then st1\<lparr>workouts := []\<rparr> else st1);
          st3 = (if ty \<in> {Some ''patients'', Some ''all''} then st2\<lparr>patients := []\<rparr> else st2)
      in (st3, \<lparr>cleared_status = ''cleared'', cleared_type = ty\<rparr>))"


section \<open>Document renderer\<close>

datatype style = Title | Heading1 | Heading2 | Normal | BulletPoint | NestedBullet

datatype block =
    Paragraph string style
  | Spacer nat                  \<comment> \<open>height in hundredths of an inch\<close>

record render_state =
  story :: "block list"
  current_section :: "block list"
  in_bullet_list :: bool

definition NL :: string where
  "NL = [CHR 0x0A]"

definition bullet_mark :: string where
  \<comment> \<open>the bullet character U+2022\<close>
  "bullet_mark = [CHR 0xE2, CHR 0x80, CHR 0xA2]"

definition circle_mark :: string where
  \<comment> \<open>the white circle U+25CB\<close>
  "circle_mark = [CHR 0xE2, CHR 0x97, CHR 0x8B]"

definition nbsp :: "string \<Rightarrow> string" where
  \<comment> \<open>\<open>s.replace('  ', '&nbsp;&nbsp;')\<close>\<close>
  "nbsp s = str_replace ''  '' ''&nbsp;&nbsp;'' s"

definition render_line :: "string \<Rightarrow> render_state \<Rightarrow> py_error + render_state" where
  \<comment> \<open>the body of the loop over the lines of the content\<close>
  "render_line raw st =
     (let line = strip raw
      in if line = [] then
           Inr (st\<lparr>story := story st @ [Spacer 15], in_bullet_list := False\<rparr>)
         else if prefix ''# '' line then
           Inr (st\<lparr>story := story st @ current_section st
                           @ [Paragraph (drop 2 line) Heading1, Spacer 15],
                  current_section := [], in_bullet_list := False\<rparr>)
         else if prefix ''## '' line then
           Inr (st\<lparr>story := story st @ current_section st
                           @ [Paragraph (drop 3 line) Heading2, Spacer 10],
                  current_section := [], in_bullet_list := False\<rparr>)
         else if prefix ''* '' line \<or> prefix ''- '' line then
           Inr (st\<lparr>current_section := current_section st
                    @ [Paragraph (bullet_mark @ '' '' @ nbsp (drop 2 line)) BulletPoint],
                  in_bullet_list := True\<rparr>)
         else if prefix ''  * '' line \<or> prefix ''  - '' line then
           Inr (st\<lparr>current_section := current_section st
                    @ [Paragraph (''  '' @ circle_mark @ '' '' @ nbsp (drop 4 line)) NestedBullet]\<rparr>)
         else if in_bullet_list st \<and> (prefix ''  '' line \<or> prefix ''   '' line) then
           (case rev (current_section st) of
              [] \<Rightarrow> Inl IndexError
            | Spacer h # before \<Rightarrow> Inl AttributeError
            | Paragraph text sty # before \<Rightarrow>
                Inr (st\<lparr>current_section := rev before
                       @ [Paragraph (text @ '' '' @ nbsp (strip line)) BulletPoint]\<rparr>))
         else
           Inr (st\<lparr>current_section := current_section st @ [Paragraph (nbsp line) Normal],
                  in_bullet_list := False\<rparr>))"

fun render_lines :: "string list \<Rightarrow> render_state \<Rightarrow> py_error + render_state" where
  "render_lines [] st = Inr st"
| "render_lines (l # ls) st =
     (case render_line l st of Inl e \<Rightarrow> Inl e | Inr st' \<Rightarrow> render_lines ls st')"

definition build_story :: "string \<Rightarrow> string \<Rightarrow> py_error + block list" where
  \<comment> \<open>the blocks handed to \<open>doc.build\<close>\<close>
  "build_story title content =
     (case render_lines (split_on (CHR 0x0A) content)
             \<lparr>story = [Paragraph title Title, Spacer 20], current_section = [],
              in_bullet_list = False\<rparr> of
        Inl e \<Rightarrow> Inl e
      | Inr st \<Rightarrow> Inr (story st @ current_section st))"




section \<open>Report composer\<close>






























section \<open>Quantities named in the statements\<close>

definition category_count :: "Workout list \<Rightarrow> string \<Rightarrow> int" where
  \<comment> \<open>the number of workouts whose category, in lower case, is \<open>c\<close>\<close>
  "category_count ws c = int (length (filter (\<lambda>w. lower (category w) = c) ws))"

definition weekday_count :: "Workout list \<Rightarrow> nat \<Rightarrow> int" where
  \<comment> \<open>the number of workouts whose timestamp falls on weekday \<open>k\<close>\<close>
  "weekday_count ws k = int (length (filter (\<lambda>w. weekday (w_timestamp w) = k) ws))"





section \<open>Example data\<close>

definition example_assessment :: "pydict \<Rightarrow> Assessment" where
  "example_assessment d =
     \<lparr>a_id = ''ASSESS_1'', a_patientId = ''p1'',
      a_timestamp = \<lparr>ordinal = 739924, second_of_day = 0\<rparr>, a_data = d\<rparr>"

definition example_workout :: "string \<Rightarrow> int \<Rightarrow> Workout" where
  "example_workout c day =
     \<lparr>w_id = ''WORK_1'', w_patientId = ''p1'', activityName = ''Bead threading'',
      category = c, duration = 15, frequency = ''daily'', instructions = None,
      w_timestamp = \<lparr>ordinal = day, second_of_day = 0\<rparr>\<rparr>"

definition example_store :: store where
  "example_store =
     \<lparr>patients = [\<lparr>p_id = ''p1'', p_name = Some ''Asha'', p_age = Some 6\<rparr>],
      assessments = [example_assessment [(''fineMotor_grip'', JInt 4)]],
      workouts = [example_workout ''fine-motor'' 739924]\<rparr>"



definition text_rating :: Assessment where
  "text_rating = example_assessment [(''communication_clarity'', JStr ''good'')]"

definition sample_markup :: string where
  \<comment> \<open>a heading, a subheading, two bullets and an indented continuation line\<close>
  "sample_markup =
     ''# Progress'' @ NL @ ''## Strengths'' @ NL @ ''* grips a pencil'' @ NL
     @ ''* stacks blocks'' @ NL @ ''   with either hand''"




section \<open>Properties of the score engine\<close>


lemma py_round_of_int [simp]: "py_round (of_int n) = n"
  by (simp add: py_round_def)

lemma py_round_numeral [simp]: "py_round (numeral n) = numeral n"
  using py_round_of_int [of "numeral n"] by simp

lemma py_round_zero [simp]: "py_round 0 = 0"
  using py_round_of_int [of 0] by simp





section \<open>Properties of the aggregator\<close>

lemma map_result_total:
  "(\<And>x. x \<in> set xs \<Longrightarrow> f x = Inr (g x)) \<Longrightarrow> map_result f xs = Inr (map g xs)"
  by (induction xs) simp_all

lemma sum_counts_distinct:
  "distinct cs \<Longrightarrow>
   (\<Sum>c\<leftarrow>cs. int (length (filter (\<lambda>w. f w = c) ws)))
     = int (length (filter (\<lambda>w. f w \<in> set cs) ws))"
proof (induction ws)
  case Nil
  show ?case by simp
next
  case (Cons w ws)
  have one: "(\<Sum>c\<leftarrow>cs. (if f w = c then 1 else 0::int)) = (if f w \<in> set cs then 1 else 0)"
    using Cons.prems by (induction cs) auto
  have "(\<Sum>c\<leftarrow>cs. int (length (filter (\<lambda>w. f w = c) (w # ws))))
      = (\<Sum>c\<leftarrow>cs. (if f w = c then 1 else 0) + int (length (filter (\<lambda>w. f w = c) ws)))"
    by (rule arg_cong [where f = sum_list]) (rule map_cong, auto)
  also have "\<dots> = (\<Sum>c\<leftarrow>cs. (if f w = c then 1 else 0::int))
      + (\<Sum>c\<leftarrow>cs. int (length (filter (\<lambda>w. f w = c) ws)))"
    by (simp add: sum_list_addf)
  finally show ?case using Cons one by simp
qed

lemma map_of_const_keys:
  "map_of (map (\<lambda>c. (c, v)) cs) k = (if k \<in> set cs then Some v else None)"
  by (induction cs) auto

lemma distribution_step_apply:
  "distribution_step w m c
     = (if lower (category w) = c then map_option (\<lambda>n. n + 1) (m c) else m c)"
  by (simp add: distribution_step_def Let_def split: option.splits)

lemma fold_distribution_step:
  "fold distribution_step ws m c = map_option (\<lambda>n. n + category_count ws c) (m c)"
proof (induction ws arbitrary: m)
  case Nil
  show ?case by (simp add: option.map_ident category_count_def)
next
  case (Cons w ws)
  have "fold distribution_step (w # ws) m c = fold distribution_step ws (distribution_step w m) c"
    by simp
  also have "\<dots> = map_option (\<lambda>n. n + category_count ws c) (distribution_step w m c)"
    by (rule Cons.IH)
  also have "\<dots> = map_option (\<lambda>n. n + category_count (w # ws) c) (m c)"
    by (cases "m c") (simp_all add: distribution_step_apply category_count_def)
  finally show ?case .
qed

lemma distribution_lookup:
  assumes "c \<in> set categories"
  shows "dict_index (fold distribution_step ws (map_of (map (\<lambda>c. (c, 0)) categories))) c
     = Inr (category_count ws c)"
  using assms by (simp add: dict_index_def fold_distribution_step map_of_const_keys)

lemma compute_activity_distribution_eq:
  "compute_activity_distribution ws
     = Inr \<lparr>labels = distribution_labels, data = map (category_count ws) categories\<rparr>"
proof -
  have "map_result (dict_index (fold distribution_step ws (map_of (map (\<lambda>c. (c, 0)) categories))))
          categories
        = Inr (map (category_count ws) categories)"
    by (rule map_result_total) (rule distribution_lookup)
  then show ?thesis
    by (simp add: compute_activity_distribution_def categories_def)
qed

lemma category_count_sum:
  "sum_list (map (category_count ws) categories)
     = int (length (filter (\<lambda>w. lower (category w) \<in> set categories) ws))"
proof -
  have "distinct categories" by (simp add: categories_def)
  from sum_counts_distinct [OF this, of "\<lambda>w. lower (category w)" ws]
  show ?thesis by (simp add: category_count_def [abs_def])
qed

lemma category_count_map:
  "category_count ws = (\<lambda>c. int (length (filter (\<lambda>s. lower s = c) (map category ws))))"
  by (rule ext) (simp add: category_count_def filter_map comp_def)

lemma lower_fine_motor: "lower ''fine-motor'' = ''fine-motor''"
  by (simp add: lower_def lower_char_def)

lemma lower_unknown: "lower ''unknown'' = ''unknown''"
  by (simp add: lower_def lower_char_def)

lemma scenario_counts:
  "map (\<lambda>c. int (length (filter (\<lambda>s. lower s = c)
          (replicate 4 ''fine-motor'' @ replicate 6 ''unknown'')))) categories
     = [4, 0, 0, 0, 0, 0, 0, 0]"
  by (simp add: categories_def lower_fine_motor lower_unknown filter_replicate)

text \<open>
  Claim C7.  The activity distribution reports, for each of the eight categories of the
  vocabulary, the number of workouts whose lower-cased category is that word; a workout
  outside the vocabulary is counted nowhere and no workout is counted twice, so the
  counts sum to the number of workouts inside the vocabulary, which is at most the
  number of workouts.  Four workouts of category fine-motor and six of category unknown
  give 4 for Fine Motor and 0 elsewhere.
\<close>

theorem activity_distribution_counts:
  "compute_activity_distribution ws
     = Inr \<lparr>labels = distribution_labels, data = map (category_count ws) categories\<rparr>
   \<and> sum_list (map (category_count ws) categories)
       = int (length (filter (\<lambda>w. lower (category w) \<in> set categories) ws))
   \<and> sum_list (map (category_count ws) categories) \<le> int (length ws)
   \<and> (map category ws = replicate 4 ''fine-motor'' @ replicate 6 ''unknown''
        \<longrightarrow> compute_activity_distribution ws
              = Inr \<lparr>labels = distribution_labels, data = [4, 0, 0, 0, 0, 0, 0, 0]\<rparr>)"
proof (intro conjI impI)
  show "compute_activity_distribution ws
     = Inr \<lparr>labels = distribution_labels, data = map (category_count ws) categories\<rparr>"
    by (rule compute_activity_distribution_eq)
next
  show "sum_list (map (category_count ws) categories)
       = int (length (filter (\<lambda>w. lower (category w) \<in> set categories) ws))"
    by (rule category_count_sum)
next
  show "sum_list (map (category_count ws) categories) \<le> int (length ws)"
    by (simp add: category_count_sum)
next
  assume "map category ws = replicate 4 ''fine-motor'' @ replicate 6 ''unknown''"
  then have "map (category_count ws) categories
      = map (\<lambda>c. int (length (filter (\<lambda>s. lower s = c)
          (replicate 4 ''fine-motor'' @ replicate 6 ''unknown'')))) categories"
    by (simp only: category_count_map)
  then have "map (category_count ws) categories = [4, 0, 0, 0, 0, 0, 0, 0]"
    by (simp only: scenario_counts)
  then show "compute_activity_distribution ws
              = Inr \<lparr>labels = distribution_labels, data = [4, 0, 0, 0, 0, 0, 0, 0]\<rparr>"
    by (simp add: compute_activity_distribution_eq)
qed

theorem activity_distribution_counts_witness:
  "map category (map (\<lambda>c. example_workout c 739924)
       (replicate 4 ''fine-motor'' @ replicate 6 ''unknown''))
     = replicate 4 ''fine-motor'' @ replicate 6 ''unknown''
   \<and> compute_activity_distribution (map (\<lambda>c. example_workout c 739924)
       (replicate 4 ''fine-motor'' @ replicate 6 ''unknown''))
     = Inr \<lparr>labels = distribution_labels, data = [4, 0, 0, 0, 0, 0, 0, 0]\<rparr>
   \<and> category_count [example_workout ''Fine-Motor'' 739924, example_workout ''yoga'' 739925]
        ''fine-motor'' = 1"
proof -
  let ?ws = "map (\<lambda>c. example_workout c 739924)
       (replicate 4 ''fine-motor'' @ replicate 6 ''unknown'')"
  have cats: "map category ?ws = replicate 4 ''fine-motor'' @ replicate 6 ''unknown''"
    by (simp add: example_workout_def comp_def)
  have mixed: "category_count [example_workout ''Fine-Motor'' 739924,
      example_workout ''yoga'' 739925] ''fine-motor'' = 1"
    by (simp add: category_count_def example_workout_def lower_def lower_char_def)
  from activity_distribution_counts [of ?ws] cats mixed show ?thesis by blast
qed

lemma week_step_apply:
  "week_step w m k
     = (if weekday (w_timestamp w) = k
        then Some ((case m k of None \<Rightarrow> 0 | Some n \<Rightarrow> n) + 1) else m k)"
  by (simp add: week_step_def Let_def)

lemma fold_week_step:
  "m k \<noteq> None \<Longrightarrow> fold week_step ws m k
     = Some ((case m k of None \<Rightarrow> 0 | Some n \<Rightarrow> n) + weekday_count ws k)"
proof (induction ws arbitrary: m)
  case Nil
  then show ?case by (auto simp: weekday_count_def split: option.splits)
next
  case (Cons w ws)
  have ne: "week_step w m k \<noteq> None" using Cons.prems by (simp add: week_step_apply)
  have "fold week_step (w # ws) m k = fold week_step ws (week_step w m) k"
    by simp
  also have "\<dots> = Some ((case week_step w m k of None \<Rightarrow> 0 | Some n \<Rightarrow> n)
                 + weekday_count ws k)"
    using Cons.IH [of "week_step w m"] ne by blast
  also have "\<dots> = Some ((case m k of None \<Rightarrow> 0 | Some n \<Rightarrow> n) + weekday_count (w # ws) k)"
    by (simp add: week_step_apply weekday_count_def)
  finally show ?case .
qed

lemma weekday_less: "weekday t < 7"
  by (simp add: weekday_def nat_less_iff)

lemma weekly_lookup:
  assumes "k \<in> set [0..<7]"
  shows "dict_index (fold week_step ws (map_of (map (\<lambda>i. (i, 0)) [0..<7]))) k
     = Inr (weekday_count ws k)"
proof -
  have "map_of (map (\<lambda>i. (i, 0::int)) [0..<7]) k = Some 0"
    using assms by (simp only: map_of_const_keys if_True)
  then show ?thesis
    by (simp add: dict_index_def fold_week_step)
qed

lemma compute_weekly_activity_eq:
  "compute_weekly_activity ws
     = Inr \<lparr>labels = week_labels, data = map (weekday_count ws) [0..<7]\<rparr>"
proof -
  have "map_result (dict_index (fold week_step ws (map_of (map (\<lambda>i. (i, 0)) [0..<7])))) [0..<7]
        = Inr (map (weekday_count ws) [0..<7])"
    by (rule map_result_total) (rule weekly_lookup)
  then show ?thesis
    by (simp add: compute_weekly_activity_def)
qed

lemma weekday_count_sum: "sum_list (map (weekday_count ws) [0..<7]) = int (length ws)"
proof -
  have "sum_list (map (weekday_count ws) [0..<7])
      = int (length (filter (\<lambda>w. weekday (w_timestamp w) \<in> set [0..<7]) ws))"
    using sum_counts_distinct [of "[0..<7]" "\<lambda>w. weekday (w_timestamp w)" ws]
    by (simp add: weekday_count_def [abs_def])
  also have "filter (\<lambda>w. weekday (w_timestamp w) \<in> set [0..<7]) ws = ws"
    by (simp add: weekday_less)
  finally show ?thesis .
qed

text \<open>
  Claim C8.  The weekly activity chart has the seven labels Mon to Sun and seven counts;
  the count of a weekday is the number of workouts whose timestamp falls on that weekday,
  whatever the current week is, and the seven counts sum to the number of workouts.
\<close>

theorem weekly_activity_sum:
  "compute_weekly_activity ws
     = Inr \<lparr>labels = week_labels, data = map (weekday_count ws) [0..<7]\<rparr>
   \<and> length (map (weekday_count ws) [0..<7]) = 7
   \<and> sum_list (map (weekday_count ws) [0..<7]) = int (length ws)"
  by (simp add: compute_weekly_activity_eq weekday_count_sum)

section \<open>Properties of the record store\<close>

text \<open>
  Claim C10.  A clear request whose type is a string other than patients, assessments,
  workouts and all leaves the three stored collections as they are and still answers
  with status cleared and the given type.
\<close>

theorem admin_clear_unknown_type:
  "t \<notin> {''patients'', ''assessments'', ''workouts'', ''all''} \<Longrightarrow>
   admin_clear (Some t) st = (st, \<lparr>cleared_status = ''cleared'', cleared_type = Some t\<rparr>)"
  by (simp add: admin_clear_def)

theorem admin_clear_unknown_type_witness:
  "''sessions'' \<notin> {''patients'', ''assessments'', ''workouts'', ''all''}
   \<and> admin_clear (Some ''sessions'') example_store
     = (example_store, \<lparr>cleared_status = ''cleared'', cleared_type = Some ''sessions''\<rparr>)
   \<and> fst (admin_clear (Some ''all'') example_store)
     = \<lparr>patients = [], assessments = [], workouts = []\<rparr>"
proof -
  have h: "''sessions'' \<notin> {''patients'', ''assessments'', ''workouts'', ''all''}" by simp
  have all: "fst (admin_clear (Some ''all'') example_store)
     = \<lparr>patients = [], assessments = [], workouts = []\<rparr>"
    by (simp add: admin_clear_def example_store_def)
  from admin_clear_unknown_type [OF h, of example_store] h all show ?thesis by simp
qed

section \<open>Properties of the progress series and of the skill reports\<close>

lemma int_of_str_good: "int_of_str ''good'' = Inl ValueError"
  by (simp add: int_of_str_def strip_def is_space_def parse_unsigned_def is_digit_def)

text \<open>
  Claim C3.  The aggregation queries are meant to drop a rating that does not convert to
  an integer.  The dashboard statistics and the skills radar do so; the skill-performance
  report converts without a handler and fails with \<open>ValueError\<close> on an assessment whose
  \<open>communication_clarity\<close> is the text \<open>good\<close>.
\<close>

theorem skill_performance_raises_on_text_rating:
  "reports_skill_performance None [text_rating] = Inl ValueError
   \<and> data (chart_dashboard_skills None [text_rating]) = [0, 0, 0, 0, 0, 0, 0, 0]
   \<and> averageProgress (compute_dashboard_stats 739924 [text_rating] []) = 0"
proof (intro conjI)
  show "reports_skill_performance None [text_rating] = Inl ValueError"
    by (simp add: reports_skill_performance_def filter_patient_def performance_categories_def
        skill_vals_def dict_get_def text_rating_def example_assessment_def int_of_str_good
        skill_result_def)
next
  show "data (chart_dashboard_skills None [text_rating]) = [0, 0, 0, 0, 0, 0, 0, 0]"
    by (simp add: chart_dashboard_skills_def filter_patient_def radar_categories_def
        pooled_values_def collect_step_def dict_get_def text_rating_def example_assessment_def
        int_of_str_good)
next
  show "averageProgress (compute_dashboard_stats 739924 [text_rating] []) = 0"
    by (simp add: compute_dashboard_stats_def compute_assessment_score_def score_keys_def
        collect_step_def dict_get_def text_rating_def example_assessment_def int_of_str_good)
qed




















section \<open>Properties of the document renderer\<close>

lemma strip_head_not_space:
  assumes "strip s = c # cs"
  shows "\<not> is_space c"
proof (cases "dropWhile is_space s")
  case Nil
  with assms show ?thesis by (simp add: strip_def)
next
  case (Cons x xs)
  then have x: "\<not> is_space x" using hd_dropWhile [of is_space s] by auto
  have "dropWhile is_space (rev xs @ [x]) = dropWhile is_space (rev xs) @ [x]"
    using x by (rule dropWhile_append3)
  then have "strip s = x # rev (dropWhile is_space (rev xs))"
    by (simp add: strip_def Cons)
  with assms x show ?thesis by simp
qed

lemma strip_no_indent: "\<not> prefix (CHR '' '' # p) (strip s)"
proof
  assume "prefix (CHR '' '' # p) (strip s)"
  then obtain cs where "strip s = CHR '' '' # cs" by (auto simp: prefix_def)
  from strip_head_not_space [OF this] show False by (simp add: is_space_def)
qed

text \<open>
  Every line is stripped before it is classified, so no line reaches the tests for a
  nested bullet or for a continuation: what is left of an indented line that is neither
  heading nor bullet becomes a paragraph of its own.
\<close>

lemma render_line_branches:
  "render_line raw st =
     (let line = strip raw
      in if line = [] then
           Inr (st\<lparr>story := story st @ [Spacer 15], in_bullet_list := False\<rparr>)
         else if prefix ''# '' line then
           Inr (st\<lparr>story := story st @ current_section st
                           @ [Paragraph (drop 2 line) Heading1, Spacer 15],
                  current_section := [], in_bullet_list := False\<rparr>)
         else if prefix ''## '' line then
           Inr (st\<lparr>story := story st @ current_section st
                           @ [Paragraph (drop 3 line) Heading2, Spacer 10],
                  current_section := [], in_bullet_list := False\<rparr>)
         else if prefix ''* '' line \<or> prefix ''- '' line then
           Inr (st\<lparr>current_section := current_section st
                    @ [Paragraph (bullet_mark @ '' '' @ nbsp (drop 2 line)) BulletPoint],
                  in_bullet_list := True\<rparr>)
         else
           Inr (st\<lparr>current_section := current_section st @ [Paragraph (nbsp line) Normal],
                  in_bullet_list := False\<rparr>))"
  unfolding render_line_def Let_def
  by (simp only: strip_no_indent simp_thms if_False)

lemma sample_lines:
  "split_on (CHR 0x0A) sample_markup
     = [''# Progress'', ''## Strengths'', ''* grips a pencil'', ''* stacks blocks'',
        ''   with either hand'']"
  by (simp add: sample_markup_def NL_def)

lemma nbsp_plain:
  "nbsp ''grips a pencil'' = ''grips a pencil''"
  "nbsp ''stacks blocks'' = ''stacks blocks''"
  "nbsp ''with either hand'' = ''with either hand''"
  by (simp_all add: nbsp_def str_replace.simps)

text \<open>
  Claim C2.  The renderer is meant to join an indented continuation line to the last
  bullet.  On a heading, a subheading, two bullets and a continuation line it produces
  the title, one top-level heading and one second-level heading, the two bullets
  unchanged, and the continuation text as a separate paragraph in normal style.
\<close>

theorem continuation_line_is_separate_paragraph:
  "build_story ''Report'' sample_markup
     = Inr [Paragraph ''Report'' Title, Spacer 20,
            Paragraph ''Progress'' Heading1, Spacer 15,
            Paragraph ''Strengths'' Heading2, Spacer 10,
            Paragraph (bullet_mark @ '' grips a pencil'') BulletPoint,
            Paragraph (bullet_mark @ '' stacks blocks'') BulletPoint,
            Paragraph ''with either hand'' Normal]"
  by (simp add: build_story_def sample_lines render_line_def strip_def is_space_def nbsp_plain)


section \<open>Properties of the report composer\<close>













end
